theory Spec2Isabelle
  imports Main "HOL-Library.AList"
begin

section \<open>Python strings\<close>

text \<open>
  A Python \<open>str\<close> is modelled as an Isabelle \<open>string\<close>: a list of characters with
  code points 0 to 255. On that range \<open>str.upper\<close> maps the letters a to z to A to Z. The
  other characters it changes are left as they are here: the accented Latin-1 letters and
  the micro sign go to characters that are none of S, E, L, C, T, and the sharp s goes to
  a double S, which the keyword does not contain, so what \<open>startswith("SELECT")\<close>
  answers is the same.
\<close>

definition upper_char :: "char \<Rightarrow> char" where
  "upper_char c =
     (let n = (of_char c :: nat) in if 97 \<le> n \<and> n \<le> 122 then char_of (n - 32) else c)"

definition upper :: "string \<Rightarrow> string" where
  "upper s = map upper_char s"

text \<open>\<open>str.isspace\<close> on the code points 0 to 255, as \<open>str.strip()\<close> uses it.\<close>

definition isspace :: "char \<Rightarrow> bool" where
  "isspace c = (let n = (of_char c :: nat) in
     (9 \<le> n \<and> n \<le> 13) \<or> (28 \<le> n \<and> n \<le> 32) \<or> n = 133 \<or> n = 160)"

definition strip :: "string \<Rightarrow> string" where
  "strip s = rev (dropWhile isspace (rev (dropWhile isspace s)))"

definition startswith :: "string \<Rightarrow> string \<Rightarrow> bool" where
  "startswith s p = (take (length p) s = p)"

text \<open>\<open>sep.join(xs)\<close>.\<close>

fun join :: "string \<Rightarrow> string list \<Rightarrow> string" where
  "join sep [] = []"
| "join sep [x] = x"
| "join sep (x # y # ys) = x @ sep @ join sep (y # ys)"

text \<open>\<open>str(n)\<close> of a Python integer: decimal digits, a leading minus sign below zero.\<close>

definition digit_char :: "nat \<Rightarrow> char" where
  "digit_char d = char_of (48 + d)"

fun str_nat :: "nat \<Rightarrow> string" where
  "str_nat n = (if n < 10 then [digit_char n] else str_nat (n div 10) @ [digit_char (n mod 10)])"

declare str_nat.simps [simp del]

definition str_int :: "int \<Rightarrow> string" where
  "str_int i = (if i < 0 then CHR ''-'' # str_nat (nat (- i)) else str_nat (nat i))"

section \<open>The database tool server\<close>

subsection \<open>Values, results and exceptions\<close>

text \<open>Column values as the caller supplies them and as the backend returns them.\<close>

datatype scalar = SNull | SBool bool | SInt int | SStr string

text \<open>The result dictionaries, as handed to \<open>json.dumps\<close>. A Python dict keeps its keys
  in insertion order: an association list.\<close>

datatype json = JNull | JBool bool | JInt int | JStr string
  | JList "json list" | JObj "(string \<times> json) list"

type_synonym pydict = "(string \<times> json) list"

fun json_of_scalar :: "scalar \<Rightarrow> json" where
  "json_of_scalar SNull = JNull"
| "json_of_scalar (SBool b) = JBool b"
| "json_of_scalar (SInt i) = JInt i"
| "json_of_scalar (SStr s) = JStr s"

text \<open>Exceptions; the source only ever reads \<open>str(e)\<close>.\<close>

datatype exn = KeyError string | TypeError string | IndexError string | BackendError string

fun str_exn :: "exn \<Rightarrow> string" where
  "str_exn (KeyError k) = [CHR 0x27] @ k @ [CHR 0x27]"
| "str_exn (TypeError m) = m"
| "str_exn (IndexError m) = m"
| "str_exn (BackendError m) = m"

subsection \<open>The backend\<close>

text \<open>
  The relational backend (\<open>sqlite3\<close> or \<open>mysql.connector\<close>) is a collaborator of the
  program, taken as a parameter: what \<open>cursor.execute\<close> and \<open>connection.commit\<close> do to
  a database state of type \<open>'db\<close>. Either may raise. A cursor that has executed offers
  \<open>description\<close> (\<open>None\<close> when the statement returns no rows), \<open>fetchall()\<close> (which may
  raise), \<open>lastrowid\<close> and \<open>rowcount\<close>. A fetched row is kept with its column keys, as
  \<open>sqlite3.Row\<close> has them; the MySQL rows are the tuples of its values.
  \<open>connection.cursor()\<close> and \<open>cursor.close()\<close> are taken to succeed.
\<close>

record cursor =
  description :: "string list option"
  fetchall :: "exn + (string \<times> scalar) list list"
  lastrowid :: "int option"
  rowcount :: int

record 'db backend =
  execute :: "string \<Rightarrow> scalar list \<Rightarrow> 'db \<Rightarrow> (exn + cursor) \<times> 'db"
  commit :: "'db \<Rightarrow> exn option \<times> 'db"

text \<open>
  The open connection: the database state behind it and, for the properties that count
  backend calls, the statements handed to \<open>cursor.execute\<close> so far, oldest first.
\<close>

record 'db connection =
  db :: 'db
  statements :: "(string \<times> scalar list) list"

definition cursor_execute ::
  "'db backend \<Rightarrow> string \<Rightarrow> scalar list \<Rightarrow> 'db connection \<Rightarrow> (exn + cursor) \<times> 'db connection" where
  "cursor_execute B q vals c =
     (case execute B q vals (db c) of
        (r, d) \<Rightarrow> (r, c\<lparr>db := d, statements := statements c @ [(q, vals)]\<rparr>))"

definition connection_commit :: "'db backend \<Rightarrow> 'db connection \<Rightarrow> exn option \<times> 'db connection" where
  "connection_commit B c = (case commit B (db c) of (r, d) \<Rightarrow> (r, c\<lparr>db := d\<rparr>))"

text \<open>\<open>dict(pairs)\<close>: a later value for a key replaces the earlier one in place.\<close>

definition dict_of :: "(string \<times> json) list \<Rightarrow> pydict" where
  "dict_of ps = foldl (\<lambda>d (k, v). AList.update k v d) [] ps"

definition placeholder :: "string \<Rightarrow> string" where
  "placeholder db_type = (if db_type = ''sqlite'' then ''?'' else ''%s'')"

text \<open>
  \<open>dict(row)\<close> for a \<open>sqlite3.Row\<close>: every key of the row, in order, with \<open>row[key]\<close>,
  which is the value of the first column whose name equals the key up to the case of
  ASCII letters.
\<close>

definition sqlite_row_dict :: "(string \<times> scalar) list \<Rightarrow> pydict" where
  "sqlite_row_dict row =
     dict_of (map (\<lambda>(k, v). (k, json_of_scalar
                (case find (\<lambda>(k', v'). upper k' = upper k) row of
                   Some (k', v') \<Rightarrow> v' | None \<Rightarrow> v))) row)"

text \<open>The rows of a cursor as a list of dicts, the shared tail of \<open>_read_records\<close> and
  \<open>_execute_query\<close>.\<close>

definition rows_as_dicts :: "string \<Rightarrow> cursor \<Rightarrow> exn + json list" where
  "rows_as_dicts db_type cur =
     (if db_type = ''sqlite'' then
        (case fetchall cur of
           Inl e \<Rightarrow> Inl e
         | Inr rs \<Rightarrow> Inr (map (\<lambda>row. JObj (sqlite_row_dict row)) rs))
      else
        (case description cur of
           None \<Rightarrow> Inl (TypeError ([CHR 0x27] @ ''NoneType'' @ [CHR 0x27] @ '' object is not iterable''))
         | Some columns \<Rightarrow>
             (case fetchall cur of
                Inl e \<Rightarrow> Inl e
              | Inr rs \<Rightarrow>
                  Inr (map (\<lambda>row. JObj (dict_of (zip columns (map (json_of_scalar \<circ> snd) row)))) rs))))"

subsection \<open>The operations\<close>

definition error_result :: "string \<Rightarrow> pydict" where
  "error_result m = [(''error'', JStr m)]"

definition assignments :: "string \<Rightarrow> (string \<times> scalar) list \<Rightarrow> string list" where
  "assignments db_type d = map (\<lambda>(key, value). key @ '' = '' @ placeholder db_type) d"

definition insert_sql :: "string \<Rightarrow> string \<Rightarrow> (string \<times> scalar) list \<Rightarrow> string" where
  "insert_sql db_type table data =
     (let columns = join '', '' (map fst data);
          placeholders = join '', '' (replicate (length data) (placeholder db_type))
      in ''INSERT INTO '' @ table @ '' ('' @ columns @ '') VALUES ('' @ placeholders @ '')'')"

definition create_record ::
  "'db backend \<Rightarrow> string \<Rightarrow> 'db connection \<Rightarrow> string \<Rightarrow> (string \<times> scalar) list
     \<Rightarrow> pydict \<times> 'db connection" where
  "create_record B db_type c table data =
     (case cursor_execute B (insert_sql db_type table data) (map snd data) c of
        (Inl e, c1) \<Rightarrow> (error_result (''Erro ao criar registro: '' @ str_exn e), c1)
      | (Inr cur, c1) \<Rightarrow>
          (case connection_commit B c1 of
             (Some e, c2) \<Rightarrow> (error_result (''Erro ao criar registro: '' @ str_exn e), c2)
           | (None, c2) \<Rightarrow>
               ([(''success'', JBool True),
                 (''message'', JStr ''Registro criado com sucesso''),
                 (''id'', case lastrowid cur of None \<Rightarrow> JNull | Some i \<Rightarrow> JInt i),
                 (''table'', JStr table)], c2)))"

definition select_sql :: "string \<Rightarrow> string \<Rightarrow> (string \<times> scalar) list \<Rightarrow> int \<Rightarrow> string" where
  "select_sql db_type table filters limit =
     (''SELECT * FROM '' @ table)
     @ (if filters \<noteq> [] then '' WHERE '' @ join '' AND '' (assignments db_type filters) else [])
     @ '' LIMIT '' @ str_int limit"

definition read_records ::
  "'db backend \<Rightarrow> string \<Rightarrow> 'db connection \<Rightarrow> string \<Rightarrow> (string \<times> scalar) list \<Rightarrow> int
     \<Rightarrow> pydict \<times> 'db connection" where
  "read_records B db_type c table filters limit =
     (case cursor_execute B (select_sql db_type table filters limit)
             (if filters \<noteq> [] then map snd filters else []) c of
        (Inl e, c1) \<Rightarrow> (error_result (''Erro ao ler registros: '' @ str_exn e), c1)
      | (Inr cur, c1) \<Rightarrow>
          (case rows_as_dicts db_type cur of
             Inl e \<Rightarrow> (error_result (''Erro ao ler registros: '' @ str_exn e), c1)
           | Inr rows \<Rightarrow>
               ([(''success'', JBool True),
                 (''count'', JInt (int (length rows))),
                 (''records'', JList rows),
                 (''table'', JStr table)], c1)))"

definition update_sql ::
  "string \<Rightarrow> string \<Rightarrow> (string \<times> scalar) list \<Rightarrow> (string \<times> scalar) list \<Rightarrow> string" where
  "update_sql db_type table filters data =
     ''UPDATE '' @ table @ '' SET '' @ join '', '' (assignments db_type data)
     @ '' WHERE '' @ join '' AND '' (assignments db_type filters)"

definition update_record ::
  "'db backend \<Rightarrow> string \<Rightarrow> 'db connection \<Rightarrow> string \<Rightarrow> (string \<times> scalar) list
     \<Rightarrow> (string \<times> scalar) list \<Rightarrow> pydict \<times> 'db connection" where
  "update_record B db_type c table filters data =
     (case cursor_execute B (update_sql db_type table filters data)
             (map snd data @ map snd filters) c of
        (Inl e, c1) \<Rightarrow> (error_result (''Erro ao atualizar registro: '' @ str_exn e), c1)
      | (Inr cur, c1) \<Rightarrow>
          (case connection_commit B c1 of
             (Some e, c2) \<Rightarrow> (error_result (''Erro ao atualizar registro: '' @ str_exn e), c2)
           | (None, c2) \<Rightarrow>
               ([(''success'', JBool True),
                 (''message'', JStr ''Registro atualizado com sucesso''),
                 (''rows_affected'', JInt (rowcount cur)),
                 (''table'', JStr table)], c2)))"

definition select_only_msg :: string where
  "select_only_msg =
     ''Apenas queries SELECT s'' @ [CHR 0xE3] @ ''o permitidas por seguran'' @ [CHR 0xE7] @ ''a''"

definition execute_query ::
  "'db backend \<Rightarrow> string \<Rightarrow> 'db connection \<Rightarrow> string \<Rightarrow> pydict \<times> 'db connection" where
  "execute_query B db_type c query =
     (let query_upper = upper (strip query) in
      if \<not> startswith query_upper ''SELECT'' then (error_result select_only_msg, c)
      else
        (case cursor_execute B query [] c of
           (Inl e, c1) \<Rightarrow> (error_result (''Erro ao executar query: '' @ str_exn e), c1)
         | (Inr cur, c1) \<Rightarrow>
             (case rows_as_dicts db_type cur of
                Inl e \<Rightarrow> (error_result (''Erro ao executar query: '' @ str_exn e), c1)
              | Inr rows \<Rightarrow>
                  ([(''success'', JBool True),
                    (''count'', JInt (int (length rows))),
                    (''records'', JList rows)], c1))))"

text \<open>\<open>row[i]\<close> on a fetched row; out of range raises \<open>IndexError\<close>.\<close>

definition row_index :: "(string \<times> scalar) list \<Rightarrow> nat \<Rightarrow> exn + json" where
  "row_index row i =
     (if i < length row then Inr (json_of_scalar (snd (row ! i)))
      else Inl (IndexError ''tuple index out of range''))"

text \<open>A list comprehension whose element expression may raise: the first exception ends it.\<close>

fun collect :: "('a \<Rightarrow> exn + 'b) \<Rightarrow> 'a list \<Rightarrow> exn + 'b list" where
  "collect f [] = Inr []"
| "collect f (x # xs) =
     (case f x of
        Inl e \<Rightarrow> Inl e
      | Inr y \<Rightarrow> (case collect f xs of Inl e \<Rightarrow> Inl e | Inr ys \<Rightarrow> Inr (y # ys)))"

definition list_tables :: "'db backend \<Rightarrow> string \<Rightarrow> 'db connection \<Rightarrow> pydict \<times> 'db connection" where
  "list_tables B db_type c =
     (let query = (if db_type = ''sqlite''
                   then ''SELECT name FROM sqlite_master WHERE type='' @ [CHR 0x27] @ ''table'' @ [CHR 0x27]
                   else ''SHOW TABLES'') in
      case cursor_execute B query [] c of
        (Inl e, c1) \<Rightarrow> (error_result (''Erro ao listar tabelas: '' @ str_exn e), c1)
      | (Inr cur, c1) \<Rightarrow>
          (case fetchall cur of
             Inl e \<Rightarrow> (error_result (''Erro ao listar tabelas: '' @ str_exn e), c1)
           | Inr rs \<Rightarrow>
               (case collect (\<lambda>row. row_index row 0) rs of
                  Inl e \<Rightarrow> (error_result (''Erro ao listar tabelas: '' @ str_exn e), c1)
                | Inr tables \<Rightarrow>
                    ([(''success'', JBool True),
                      (''tables'', JList tables),
                      (''count'', JInt (int (length tables)))], c1))))"

definition mysql_column :: "(string \<times> scalar) list \<Rightarrow> exn + json" where
  "mysql_column row =
     (case collect (row_index row) [0, 1, 2, 3, 4, 5] of
        Inl e \<Rightarrow> Inl e
      | Inr vs \<Rightarrow> Inr (JObj (zip [''name'', ''type'', ''null'', ''key'', ''default'', ''extra''] vs)))"

definition describe_table ::
  "'db backend \<Rightarrow> string \<Rightarrow> 'db connection \<Rightarrow> string \<Rightarrow> pydict \<times> 'db connection" where
  "describe_table B db_type c table =
     (let query = (if db_type = ''sqlite'' then ''PRAGMA table_info('' @ table @ '')''
                   else ''DESCRIBE '' @ table) in
      case cursor_execute B query [] c of
        (Inl e, c1) \<Rightarrow> (error_result (''Erro ao descrever tabela: '' @ str_exn e), c1)
      | (Inr cur, c1) \<Rightarrow>
          (case fetchall cur of
             Inl e \<Rightarrow> (error_result (''Erro ao descrever tabela: '' @ str_exn e), c1)
           | Inr rs \<Rightarrow>
               (case (if db_type = ''sqlite''
                      then Inr (map (\<lambda>row. JObj (sqlite_row_dict row)) rs)
                      else collect mysql_column rs) of
                  Inl e \<Rightarrow> (error_result (''Erro ao descrever tabela: '' @ str_exn e), c1)
                | Inr columns \<Rightarrow>
                    ([(''success'', JBool True),
                      (''table'', JStr table),
                      (''columns'', JList columns)], c1))))"

subsection \<open>The server and its dispatcher\<close>

text \<open>
  The arguments of a tool call, with the types the tools' input schemas declare; a key
  the caller left out is \<open>None\<close>, and \<open>arguments["k"]\<close> on it raises \<open>KeyError\<close>.
  \<open>call_tool\<close> is modelled up to the dictionary it hands to \<open>json.dumps\<close>, together
  with the server state after the call.
\<close>

record arguments =
  arg_table :: "string option"
  arg_filters :: "(string \<times> scalar) list option"
  arg_data :: "(string \<times> scalar) list option"
  arg_limit :: "int option"
  arg_query :: "string option"

record 'db server =
  db_type :: string
  db_config :: "(string \<times> scalar) list"
  connection :: "'db connection option"

definition not_connected_msg :: string where
  "not_connected_msg = ''N'' @ [CHR 0xE3] @ ''o conectado ao banco de dados''"

definition not_found_msg :: "string \<Rightarrow> string" where
  "not_found_msg name =
     ''Ferramenta '' @ [CHR 0x27] @ name @ [CHR 0x27] @ '' n'' @ [CHR 0xE3] @ ''o encontrada''"

definition tool_names :: "string list" where
  "tool_names = [''create_record'', ''read_records'', ''update_record'', ''execute_query'',
                 ''list_tables'', ''describe_table'']"

definition with_connection ::
  "'db server \<Rightarrow> pydict \<times> 'db connection \<Rightarrow> pydict \<times> 'db server" where
  "with_connection s r = (fst r, s\<lparr>connection := Some (snd r)\<rparr>)"

definition key_error :: "'db server \<Rightarrow> string \<Rightarrow> pydict \<times> 'db server" where
  "key_error s k = (error_result (str_exn (KeyError k)), s)"

definition call_tool ::
  "'db backend \<Rightarrow> 'db server \<Rightarrow> string \<Rightarrow> arguments \<Rightarrow> pydict \<times> 'db server" where
  "call_tool B s name args =
     (case connection s of
        None \<Rightarrow> (error_result not_connected_msg, s)
      | Some c \<Rightarrow>
          if name = ''create_record'' then
            (case arg_table args of
               None \<Rightarrow> key_error s ''table''
             | Some table \<Rightarrow>
                 (case arg_data args of
                    None \<Rightarrow> key_error s ''data''
                  | Some data \<Rightarrow> with_connection s (create_record B (db_type s) c table data)))
          else if name = ''read_records'' then
            (let filters = (case arg_filters args of None \<Rightarrow> [] | Some f \<Rightarrow> f);
                 limit = (case arg_limit args of None \<Rightarrow> 100 | Some l \<Rightarrow> l) in
             case arg_table args of
               None \<Rightarrow> key_error s ''table''
             | Some table \<Rightarrow> with_connection s (read_records B (db_type s) c table filters limit))
          else if name = ''update_record'' then
            (case arg_table args of
               None \<Rightarrow> key_error s ''table''
             | Some table \<Rightarrow>
                 (case arg_filters args of
                    None \<Rightarrow> key_error s ''filters''
                  | Some filters \<Rightarrow>
                      (case arg_data args of
                         None \<Rightarrow> key_error s ''data''
                       | Some data \<Rightarrow>
                           with_connection s (update_record B (db_type s) c table filters data))))
          else if name = ''execute_query'' then
            (case arg_query args of
               None \<Rightarrow> key_error s ''query''
             | Some query \<Rightarrow> with_connection s (execute_query B (db_type s) c query))
          else if name = ''list_tables'' then
            with_connection s (list_tables B (db_type s) c)
          else if name = ''describe_table'' then
            (case arg_table args of
               None \<Rightarrow> key_error s ''table''
             | Some table \<Rightarrow> with_connection s (describe_table B (db_type s) c table))
          else (error_result (not_found_msg name), s))"

text \<open>
  \<open>__init__\<close> and \<open>_connect_database\<close>. The two drivers' \<open>connect\<close> are parameters; a
  \<open>db_type\<close> that is neither of the two leaves the connection absent without raising.
\<close>

record 'db drivers =
  sqlite_connect :: "scalar \<Rightarrow> exn + 'db"
  mysql_connect :: "scalar \<Rightarrow> scalar \<Rightarrow> scalar \<Rightarrow> scalar \<Rightarrow> scalar \<Rightarrow> exn + 'db"

definition config_get :: "(string \<times> scalar) list \<Rightarrow> string \<Rightarrow> scalar \<Rightarrow> scalar" where
  "config_get cfg k dflt = (case map_of cfg k of None \<Rightarrow> dflt | Some v \<Rightarrow> v)"

definition opened :: "exn + 'db \<Rightarrow> 'db connection option" where
  "opened r = (case r of Inl e \<Rightarrow> None | Inr d \<Rightarrow> Some \<lparr>db = d, statements = []\<rparr>)"

definition connect_database :: "'db drivers \<Rightarrow> 'db server \<Rightarrow> 'db server" where
  "connect_database D s =
     (if db_type s = ''sqlite'' then
        s\<lparr>connection := opened (sqlite_connect D (config_get (db_config s) ''path'' (SStr ''database.db'')))\<rparr>
      else if db_type s = ''mysql'' then
        s\<lparr>connection := opened (mysql_connect D
            (config_get (db_config s) ''host'' (SStr ''localhost''))
            (config_get (db_config s) ''port'' (SInt 3306))
            (config_get (db_config s) ''user'' (SStr ''root''))
            (config_get (db_config s) ''password'' (SStr []))
            (config_get (db_config s) ''database'' (SStr ''test'')))\<rparr>
      else s)"

definition init :: "'db drivers \<Rightarrow> string \<Rightarrow> (string \<times> scalar) list \<Rightarrow> 'db server" where
  "init D t cfg = connect_database D \<lparr>db_type = t, db_config = cfg, connection = None\<rparr>"

section \<open>The multimodal ingestion pipeline\<close>

subsection \<open>Documents and collaborators\<close>

text \<open>
  What the libraries return for one PDF file is part of the input: the outcome of
  \<open>PyPDFLoader(...).load()\<close>, of \<open>fitz.open\<close> with, for every page, the outcome of
  \<open>page.get_images()\<close> and for every image that of \<open>doc.extract_image(xref)\<close>, and of
  \<open>pdfplumber.open\<close> with every page's \<open>extract_tables()\<close>. \<open>Inl\<close> is a raised
  exception. A table is a grid of cells, a cell a string or \<open>None\<close>; a table may itself
  be \<open>None\<close>.
\<close>

type_synonym cell = "string option"

record text_document =
  page_content :: string
  doc_metadata :: "(string \<times> json) list"

record base_image =
  image_bytes :: string
  image_ext :: string

record pdf_file =
  pdf_name :: string
  pdf_stem :: string
  loader_load :: "exn + text_document list"
  fitz_open :: "exn + (exn + (exn + base_image) list) list"
  plumber_open :: "exn + (exn + cell list list option list) list"

text \<open>A \<open>pandas.DataFrame\<close> built from rows and column labels: \<open>len(df)\<close> is the number
  of rows and \<open>len(df.columns)\<close> the number of labels.\<close>

record frame =
  frame_data :: "cell list list"
  frame_columns :: "cell list"

text \<open>
  The other collaborators: base64 encoding, writing a file, the image captioner (absent
  when its model did not load; applied to a path it stands for \<open>Image.open\<close> followed by
  the captioner call), \<open>pandas\<close> accepting or refusing a grid, and its CSV and row-object
  encodings.
\<close>

record externals =
  b64encode :: "string \<Rightarrow> string"
  write_file :: "string \<Rightarrow> string \<Rightarrow> exn option"
  image_captioner :: "(string \<Rightarrow> exn + string) option"
  frame_error :: "cell list list \<Rightarrow> cell list \<Rightarrow> exn option"
  to_csv :: "frame \<Rightarrow> string"
  to_csv_file :: "string \<Rightarrow> frame \<Rightarrow> exn option"
  to_dict :: "frame \<Rightarrow> json"

record path =
  path_parent :: string
  path_name :: string

definition str_path :: "path \<Rightarrow> string" where
  "str_path p = path_parent p @ ''/'' @ path_name p"

definition output_images :: string where
  "output_images = ''pdf_images''"

definition output_tables :: string where
  "output_tables = ''pdf_tables''"

record image_data =
  img_page :: int
  img_image_index :: int
  img_path :: string
  img_b64 :: string
  img_description :: string
  img_source_pdf :: string

record table_data =
  tbl_page :: int
  tbl_table_index :: int
  tbl_path :: string
  tbl_json :: json
  tbl_csv :: string
  tbl_description :: string
  tbl_source_pdf :: string
  tbl_rows :: int
  tbl_columns :: int

subsection \<open>Extraction\<close>

text \<open>
  A \<open>for\<close> loop inside \<open>try\<close> that appends to a list declared before the \<open>try\<close>: each
  iteration yields what it appended and whether it raised; an exception ends the loop and
  what was appended so far stays in the list.
\<close>

fun loop :: "('a \<Rightarrow> 'b list \<times> exn option) \<Rightarrow> 'a list \<Rightarrow> 'b list \<times> exn option" where
  "loop body [] = ([], None)"
| "loop body (x # xs) =
     (case body x of
        (ys, Some e) \<Rightarrow> (ys, Some e)
      | (ys, None) \<Rightarrow> (case loop body xs of (zs, r) \<Rightarrow> (ys @ zs, r)))"

definition describe_image :: "externals \<Rightarrow> path \<Rightarrow> string" where
  "describe_image X image_path =
     (let fallback = ''Imagem extra'' @ [CHR 0xED] @ ''da do PDF: '' @ path_name image_path in
      case image_captioner X of
        None \<Rightarrow> fallback
      | Some captioner \<Rightarrow>
          (case captioner (str_path image_path) of Inl e \<Rightarrow> fallback | Inr text \<Rightarrow> text))"

definition image_entry ::
  "externals \<Rightarrow> pdf_file \<Rightarrow> nat \<Rightarrow> nat \<times> (exn + base_image) \<Rightarrow> image_data list \<times> exn option" where
  "image_entry X p page_num ii =
     (case ii of (img_index, img) \<Rightarrow>
      (case img of
        Inl e \<Rightarrow> ([], Some e)
      | Inr base_image \<Rightarrow>
          (let image_filename = pdf_stem p @ ''_page'' @ str_int (int page_num + 1) @ ''_img''
                                @ str_int (int img_index + 1) @ ''.'' @ image_ext base_image;
               image_path = \<lparr>path_parent = output_images, path_name = image_filename\<rparr> in
           case write_file X (str_path image_path) (image_bytes base_image) of
             Some e \<Rightarrow> ([], Some e)
           | None \<Rightarrow>
               ([\<lparr>img_page = int page_num + 1,
                  img_image_index = int img_index + 1,
                  img_path = str_path image_path,
                  img_b64 = b64encode X (image_bytes base_image),
                  img_description = describe_image X image_path,
                  img_source_pdf = pdf_name p\<rparr>], None))))"

definition image_page ::
  "externals \<Rightarrow> pdf_file \<Rightarrow> nat \<times> (exn + (exn + base_image) list) \<Rightarrow> image_data list \<times> exn option" where
  "image_page X p np =
     (case np of (page_num, page) \<Rightarrow>
      (case page of
        Inl e \<Rightarrow> ([], Some e)
      | Inr image_list \<Rightarrow> loop (image_entry X p page_num) (enumerate 0 image_list)))"


text \<open>\<open>', '.join(headers[:5])\<close> raises \<open>TypeError\<close> on a header cell that is \<open>None\<close>.\<close>

fun join_cells :: "nat \<Rightarrow> cell list \<Rightarrow> exn + string list" where
  "join_cells i [] = Inr []"
| "join_cells i (None # cs) =
     Inl (TypeError (''sequence item '' @ str_nat i @ '': expected str instance, NoneType found''))"
| "join_cells i (Some s # cs) =
     (case join_cells (Suc i) cs of Inl e \<Rightarrow> Inl e | Inr ss \<Rightarrow> Inr (s # ss))"

definition describe_table_frame :: "frame \<Rightarrow> cell list \<Rightarrow> exn + string" where
  "describe_table_frame df headers =
     (let descr = ''Tabela com '' @ str_int (int (length (frame_data df))) @ '' linhas e ''
                        @ str_int (int (length (frame_columns df))) @ '' colunas. '' in
      case join_cells 0 (take 5 headers) of
        Inl e \<Rightarrow> Inl e
      | Inr names \<Rightarrow>
          Inr (descr @ ''Colunas: '' @ join '', '' names
               @ (if length headers > 5 then ''...'' else [])))"

definition table_entry ::
  "externals \<Rightarrow> pdf_file \<Rightarrow> nat \<Rightarrow> nat \<times> cell list list option \<Rightarrow> table_data list \<times> exn option" where
  "table_entry X p page_num it =
     (case it of (table_index, table_opt) \<Rightarrow>
      (case table_opt of
        None \<Rightarrow> ([], None)
      | Some table \<Rightarrow>
          if table = [] then ([], None)
          else
            (case frame_error X (tl table) (hd table) of
               Some e \<Rightarrow> ([], Some e)
             | None \<Rightarrow>
                 (let df = \<lparr>frame_data = tl table, frame_columns = hd table\<rparr>;
                      table_filename = pdf_stem p @ ''_page'' @ str_int (int page_num) @ ''_table''
                                       @ str_int (int table_index + 1) @ ''.csv'';
                      table_path = \<lparr>path_parent = output_tables, path_name = table_filename\<rparr> in
                  case to_csv_file X (str_path table_path) df of
                    Some e \<Rightarrow> ([], Some e)
                  | None \<Rightarrow>
                      (case describe_table_frame df (hd table) of
                         Inl e \<Rightarrow> ([], Some e)
                       | Inr descr \<Rightarrow>
                           ([\<lparr>tbl_page = int page_num,
                              tbl_table_index = int table_index + 1,
                              tbl_path = str_path table_path,
                              tbl_json = to_dict X df,
                              tbl_csv = to_csv X df,
                              tbl_description = descr,
                              tbl_source_pdf = pdf_name p,
                              tbl_rows = int (length (frame_data df)),
                              tbl_columns = int (length (frame_columns df))\<rparr>], None))))))"

definition table_page ::
  "externals \<Rightarrow> pdf_file \<Rightarrow> nat \<times> (exn + cell list list option list) \<Rightarrow> table_data list \<times> exn option" where
  "table_page X p np =
     (case np of (page_num, page) \<Rightarrow>
      (case page of
        Inl e \<Rightarrow> ([], Some e)
      | Inr tables \<Rightarrow> loop (table_entry X p page_num) (enumerate 0 tables)))"

definition extract_tables_from_pdf :: "externals \<Rightarrow> pdf_file \<Rightarrow> table_data list" where
  "extract_tables_from_pdf X p =
     (case plumber_open p of
        Inl e \<Rightarrow> []
      | Inr pages \<Rightarrow> fst (loop (table_page X p) (enumerate 1 pages)))"


record processed_pdf =
  pp_pdf_name :: string
  pp_text_documents :: "text_document list"
  pp_images :: "image_data list"
  pp_tables :: "table_data list"



subsection \<open>The vector store\<close>

text \<open>
  A stored document. The embedding function is a parameter \<open>emb\<close> with values in
  \<open>'e\<close>. The JSON texts in \<open>metadata\<close> and \<open>table_json\<close> are kept as the values handed
  to \<open>json.dumps\<close>.
\<close>

record 'e document =
  content :: string
  content_type :: string
  source_pdf :: string
  page :: json
  embedding :: 'e
  metadata :: json
  image_b64 :: "string option"
  image_path :: "string option"
  table_json :: "json option"
  table_csv :: "string option"
  table_path :: "string option"

definition metadata_page :: "text_document \<Rightarrow> json" where
  "metadata_page doc = (case map_of (doc_metadata doc) ''page'' of None \<Rightarrow> JInt 0 | Some v \<Rightarrow> v)"

definition text_entry :: "(string \<Rightarrow> 'e) \<Rightarrow> string \<Rightarrow> text_document \<Rightarrow> 'e document" where
  "text_entry emb name doc =
     \<lparr>content = page_content doc, content_type = ''text'', source_pdf = name,
      page = metadata_page doc, embedding = emb (page_content doc),
      metadata = JObj [(''type'', JStr ''text''), (''source'', JStr name), (''page'', metadata_page doc)],
      image_b64 = None, image_path = None, table_json = None, table_csv = None, table_path = None\<rparr>"

definition image_document :: "(string \<Rightarrow> 'e) \<Rightarrow> string \<Rightarrow> image_data \<Rightarrow> 'e document" where
  "image_document emb name img =
     \<lparr>content = img_description img, content_type = ''image'', source_pdf = name,
      page = JInt (img_page img), embedding = emb (img_description img),
      metadata = JObj [(''type'', JStr ''image''), (''source'', JStr name), (''page'', JInt (img_page img)),
                       (''image_path'', JStr (img_path img)), (''image_b64'', JStr (img_b64 img))],
      image_b64 = Some (img_b64 img), image_path = Some (img_path img),
      table_json = None, table_csv = None, table_path = None\<rparr>"

definition table_document :: "(string \<Rightarrow> 'e) \<Rightarrow> string \<Rightarrow> table_data \<Rightarrow> 'e document" where
  "table_document emb name table =
     \<lparr>content = tbl_description table @ [CHR 0x0A] @ tbl_csv table, content_type = ''table'',
      source_pdf = name, page = JInt (tbl_page table), embedding = emb (tbl_description table),
      metadata = JObj [(''type'', JStr ''table''), (''source'', JStr name), (''page'', JInt (tbl_page table)),
                       (''table_path'', JStr (tbl_path table)), (''rows'', JInt (tbl_rows table)),
                       (''columns'', JInt (tbl_columns table))],
      image_b64 = None, image_path = None,
      table_json = Some (tbl_json table), table_csv = Some (tbl_csv table),
      table_path = Some (tbl_path table)\<rparr>"

definition documents_of_pdf :: "(string \<Rightarrow> 'e) \<Rightarrow> processed_pdf \<Rightarrow> 'e document list" where
  "documents_of_pdf emb pdf_data =
     map (text_entry emb (pp_pdf_name pdf_data)) (pp_text_documents pdf_data)
     @ map (image_document emb (pp_pdf_name pdf_data)) (pp_images pdf_data)
     @ map (table_document emb (pp_pdf_name pdf_data)) (pp_tables pdf_data)"

definition create_documents_with_metadata ::
  "(string \<Rightarrow> 'e) \<Rightarrow> processed_pdf list \<Rightarrow> 'e document list" where
  "create_documents_with_metadata emb processed_pdfs =
     foldl (\<lambda>all_documents pdf_data. all_documents @ documents_of_pdf emb pdf_data) [] processed_pdfs"

text \<open>
  The LanceDB store: the named tables on disk and whether \<open>initialize_db\<close> has connected.
  \<open>table.add\<close> appends, \<open>create_table\<close> makes the table from the documents. Using the
  store before it is connected raises inside the \<open>try\<close>, and \<open>None\<close> is returned.
\<close>

record 'e store =
  connected :: bool
  lance_tables :: "(string \<times> 'e document list) list"



text \<open>
  \<open>search\<close>. The nearest-neighbour query \<open>table.search(v).limit(k).to_pandas()\<close> is the
  parameter \<open>nearest\<close>; it may raise. \<open>if content_type:\<close> is Python truthiness: \<open>None\<close>
  and the empty string both skip the filter.
\<close>

definition search ::
  "(string \<Rightarrow> 'e) \<Rightarrow> ('e \<Rightarrow> int \<Rightarrow> 'e document list \<Rightarrow> exn + 'e document list) \<Rightarrow> 'e store
     \<Rightarrow> string \<Rightarrow> int \<Rightarrow> string option \<Rightarrow> 'e document list option" where
  "search emb nearest st query k ctype =
     (let query_embedding = emb query in
      if \<not> connected st then None
      else
        (case map_of (lance_tables st) ''multimodal_rag'' of
           None \<Rightarrow> None
         | Some rows \<Rightarrow>
             (case nearest query_embedding k rows of
                Inl e \<Rightarrow> None
              | Inr results \<Rightarrow>
                  (case ctype of
                     None \<Rightarrow> Some results
                   | Some t \<Rightarrow>
                       if t \<noteq> [] then Some (filter (\<lambda>d. content_type d = t) results)
                       else Some results))))"


section \<open>Properties as the specification words them\<close>



text \<open>The shape of a result: an error result holds the message under \<open>error\<close> and nothing
  else; a success result holds \<open>success\<close> as true, no \<open>error\<close>, and one payload key.\<close>

definition payload_keys :: "string list" where
  "payload_keys = [''id'', ''records'', ''rows_affected'', ''tables'', ''columns'']"

definition is_error :: "pydict \<Rightarrow> bool" where
  "is_error r = (case r of [(k, JStr m)] \<Rightarrow> k = ''error'' | _ \<Rightarrow> False)"

definition is_success :: "pydict \<Rightarrow> bool" where
  "is_success r =
     (map_of r ''success'' = Some (JBool True) \<and> map_of r ''error'' = None
      \<and> length (filter (\<lambda>k. k \<in> set payload_keys) (map fst r)) = 1)"

definition exactly_one :: "pydict \<Rightarrow> bool" where
  "exactly_one r = (is_success r \<noteq> is_error r)"



text \<open>
  The description of a table grid: its number of rows without the header row, its number
  of columns, at most the first five column names, and the marker \<open>...\<close> exactly when
  there are more than five columns.
\<close>

definition spec_table_description :: "cell list list \<Rightarrow> string" where
  "spec_table_description grid =
     ''Tabela com '' @ str_int (int (length grid) - 1) @ '' linhas e ''
     @ str_int (int (length (hd grid))) @ '' colunas. Colunas: ''
     @ join '', '' (map the (take 5 (hd grid)))
     @ (if 5 < length (hd grid) then ''...'' else [])"

section \<open>Test doubles\<close>

text \<open>A backend over a row counter: every statement succeeds, matches no row and returns
  no row.\<close>

definition empty_cursor :: cursor where
  "empty_cursor = \<lparr>description = None, fetchall = Inr [], lastrowid = None, rowcount = 0\<rparr>"

definition stub_backend :: "nat backend" where
  "stub_backend = \<lparr>execute = (\<lambda>q vals d. (Inr empty_cursor, d)), commit = (\<lambda>d. (None, d))\<rparr>"


definition fresh_connection :: "nat connection" where
  "fresh_connection = \<lparr>db = 3, statements = []\<rparr>"

definition no_arguments :: arguments where
  "no_arguments = \<lparr>arg_table = None, arg_filters = None, arg_data = None,
                    arg_limit = None, arg_query = None\<rparr>"

definition failing_drivers :: "nat drivers" where
  "failing_drivers =
     \<lparr>sqlite_connect = (\<lambda>path. Inl (BackendError ''unable to open database file'')),
      mysql_connect = (\<lambda>h po u pw dbn. Inl (BackendError ''connection refused''))\<rparr>"

definition plain_externals :: externals where
  "plain_externals =
     \<lparr>b64encode = (\<lambda>bytes. bytes),
      write_file = (\<lambda>path bytes. None),
      image_captioner = None,
      frame_error = (\<lambda>rows columns. None),
      to_csv = (\<lambda>df. join [CHR 0x0A] (map (\<lambda>r. join '','' (map (\<lambda>c. case c of None \<Rightarrow> [] | Some s \<Rightarrow> s) r))
                                         (frame_columns df # frame_data df))),
      to_csv_file = (\<lambda>path df. None),
      to_dict = (\<lambda>df. JList [])\<rparr>"

text \<open>A PDF of one page with two images, whose second image cannot be extracted.\<close>

definition half_broken_pdf :: pdf_file where
  "half_broken_pdf =
     \<lparr>pdf_name = ''a.pdf'', pdf_stem = ''a'',
      loader_load = Inr [\<lparr>page_content = ''hello'', doc_metadata = [(''page'', JInt 0)]\<rparr>],
      fitz_open = Inr [Inr [Inr \<lparr>image_bytes = ''xyz'', image_ext = ''png''\<rparr>,
                            Inl (BackendError ''bad xref'')]],
      plumber_open = Inr [Inr [Some [[Some ''n'', Some ''v''], [Some ''1'', Some ''2'']]]]\<rparr>"

definition sample_table :: table_data where
  "sample_table =
     \<lparr>tbl_page = 1, tbl_table_index = 1, tbl_path = ''pdf_tables/a_page1_table1.csv'',
      tbl_json = JList [], tbl_csv = ''n,v'',
      tbl_description = ''Tabela com 1 linhas e 2 colunas. Colunas: n, v'',
      tbl_source_pdf = ''a.pdf'', tbl_rows = 1, tbl_columns = 2\<rparr>"

definition sample_processed :: processed_pdf where
  "sample_processed =
     \<lparr>pp_pdf_name = ''a.pdf'', pp_text_documents = [], pp_images = [], pp_tables = [sample_table]\<rparr>"

text \<open>An embedding that keeps the text, and a nearest-neighbour query that returns the
  first \<open>k\<close> rows.\<close>

definition identity_embedding :: "string \<Rightarrow> string" where
  "identity_embedding text = text"

definition first_k :: "string \<Rightarrow> int \<Rightarrow> string document list \<Rightarrow> exn + string document list" where
  "first_k v k rows = Inr (take (nat k) rows)"

definition sample_store :: "string store" where
  "sample_store =
     \<lparr>connected = True,
      lance_tables = [(''multimodal_rag'',
        [text_entry identity_embedding ''a.pdf'' \<lparr>page_content = ''hello'', doc_metadata = []\<rparr>])]\<rparr>"

section \<open>Proofs: the database tool server\<close>

subsection \<open>Auxiliary facts about the keyword test\<close>






subsection \<open>The raw query gate\<close>



subsection \<open>The dispatcher\<close>

text \<open>
  C2, amended. On a connected Gateway, every operation name outside the fixed set of six
  tool names (\<open>delete\<close> among them) gets the "tool not found" error result and the server
  state, which holds the statement log, is unchanged. When the connection is absent the
  connection guard answers first, with the fixed "not connected" error, also without any
  backend call.
\<close>

theorem unknown_tool_not_found:
  "name \<notin> set tool_names \<Longrightarrow>
     call_tool B s name args =
       (if connection s = None then error_result not_connected_msg
        else error_result (not_found_msg name), s)"
  by (auto simp: call_tool_def tool_names_def split: option.splits)

theorem unknown_tool_not_found_witness:
  "''delete'' \<notin> set tool_names
   \<and> call_tool stub_backend
        \<lparr>db_type = ''sqlite'', db_config = [], connection = Some fresh_connection\<rparr>
        ''delete'' no_arguments
       = (error_result (not_found_msg ''delete''),
          \<lparr>db_type = ''sqlite'', db_config = [], connection = Some fresh_connection\<rparr>)"
proof -
  have a: "''delete'' \<notin> set tool_names" by (simp add: tool_names_def)
  show ?thesis
    using a unknown_tool_not_found [OF a, of stub_backend
        "\<lparr>db_type = ''sqlite'', db_config = [], connection = Some fresh_connection\<rparr>" no_arguments]
    by simp
qed

text \<open>
  The claim as stated, for every state of the Gateway, fails where the connection is
  absent: \<open>delete\<close> is then answered with the "not connected" error, not with "tool not
  found".
\<close>

theorem unknown_tool_counterexample:
  "''delete'' \<notin> set tool_names
   \<and> fst (call_tool stub_backend \<lparr>db_type = ''sqlite'', db_config = [], connection = None\<rparr>
            ''delete'' no_arguments)
       \<noteq> error_result (not_found_msg ''delete'')"
  by (simp add: tool_names_def call_tool_def error_result_def not_found_msg_def not_connected_msg_def)

text \<open>What \<open>_connect_database\<close> leaves behind when the driver raises.\<close>

lemma init_sqlite_failed:
  "sqlite_connect D (config_get cfg ''path'' (SStr ''database.db'')) = Inl e
     \<Longrightarrow> connection (init D ''sqlite'' cfg) = None"
  by (simp add: init_def connect_database_def opened_def)

lemma init_mysql_failed:
  "mysql_connect D (config_get cfg ''host'' (SStr ''localhost'')) (config_get cfg ''port'' (SInt 3306))
      (config_get cfg ''user'' (SStr ''root'')) (config_get cfg ''password'' (SStr []))
      (config_get cfg ''database'' (SStr ''test'')) = Inl e
     \<Longrightarrow> connection (init D ''mysql'' cfg) = None"
  by (simp add: init_def connect_database_def opened_def)

text \<open>
  C6. When the connection is absent, as it is after a failed connect at startup, every
  operation name with every argument set gets the same fixed "not connected" error
  result; the dispatcher returns (it is a total function, nothing is raised) and the
  server state is unchanged, so no statement is attempted and the next call is answered
  the same way.
\<close>

theorem call_tool_not_connected:
  "connection s = None \<Longrightarrow> call_tool B s name args = (error_result not_connected_msg, s)"
  by (simp add: call_tool_def)

theorem call_tool_not_connected_witness:
  "connection (init failing_drivers ''sqlite'' []) = None
   \<and> call_tool stub_backend (init failing_drivers ''sqlite'' []) ''read_records''
        (no_arguments\<lparr>arg_table := Some ''users''\<rparr>)
       = (error_result not_connected_msg, init failing_drivers ''sqlite'' [])"
proof -
  have a: "connection (init failing_drivers ''sqlite'' []) = None"
    by (rule init_sqlite_failed) (simp add: failing_drivers_def)
  show ?thesis
    using a call_tool_not_connected [OF a, of stub_backend "''read_records''"
        "no_arguments\<lparr>arg_table := Some ''users''\<rparr>"]
    by simp
qed

subsection \<open>The shape of results\<close>

lemma error_result_shape: "is_error (error_result m) \<and> \<not> is_success (error_result m)"
  by (simp add: is_error_def is_success_def error_result_def)

lemma shape_error: "exactly_one (error_result m)"
  by (simp add: exactly_one_def error_result_shape)

lemma shape_success:
  "exactly_one [(''success'', JBool True), (''message'', m), (''id'', i), (''table'', tb)]"
  "exactly_one [(''success'', JBool True), (''count'', n), (''records'', rs), (''table'', tb)]"
  "exactly_one [(''success'', JBool True), (''message'', m), (''rows_affected'', n), (''table'', tb)]"
  "exactly_one [(''success'', JBool True), (''count'', n), (''records'', rs)]"
  "exactly_one [(''success'', JBool True), (''tables'', ts), (''count'', n)]"
  "exactly_one [(''success'', JBool True), (''table'', tb), (''columns'', cs)]"
  by (simp_all add: exactly_one_def is_error_def is_success_def payload_keys_def)

lemma shape_create: "exactly_one (fst (create_record B t c table data))"
  by (simp add: create_record_def shape_error shape_success split: prod.splits sum.splits option.splits)

lemma shape_read: "exactly_one (fst (read_records B t c table filters limit))"
  by (simp add: read_records_def shape_error shape_success split: prod.splits sum.splits option.splits)

lemma shape_update: "exactly_one (fst (update_record B t c table filters data))"
  by (simp add: update_record_def shape_error shape_success split: prod.splits sum.splits option.splits)

lemma shape_query: "exactly_one (fst (execute_query B t c query))"
  by (simp add: execute_query_def Let_def shape_error shape_success split: prod.splits sum.splits option.splits)

lemma shape_list: "exactly_one (fst (list_tables B t c))"
  by (simp add: list_tables_def Let_def shape_error shape_success split: prod.splits sum.splits option.splits)

lemma shape_describe: "exactly_one (fst (describe_table B t c table))"
  by (simp add: describe_table_def Let_def shape_error shape_success split: prod.splits sum.splits option.splits)

lemmas shapes = shape_create shape_read shape_update shape_query shape_list shape_describe shape_error

text \<open>
  C3, amended. Every result of the Gateway is of exactly one of two shapes: a success
  result, which holds \<open>success\<close> as true, no \<open>error\<close> key and exactly one payload key
  (\<open>id\<close>, \<open>records\<close>, \<open>rows_affected\<close>, \<open>tables\<close> or \<open>columns\<close>), or an error result, which
  holds the message under \<open>error\<close> and nothing else: no payload and no \<open>success\<close> field.
\<close>

theorem call_tool_result_shape:
  "exactly_one (fst (call_tool B s name args))"
  by (simp add: call_tool_def with_connection_def key_error_def Let_def shapes
        split: option.splits)

theorem call_tool_result_shape_witness:
  "exactly_one (fst (call_tool stub_backend
      \<lparr>db_type = ''sqlite'', db_config = [], connection = Some fresh_connection\<rparr>
      ''list_tables'' no_arguments))"
  using call_tool_result_shape [of stub_backend
      "\<lparr>db_type = ''sqlite'', db_config = [], connection = Some fresh_connection\<rparr>"
      "''list_tables''" no_arguments]
  by simp

text \<open>
  The claim as stated fails in the error case: the result of a rejected raw query is the
  dictionary with the single key \<open>error\<close>; it has no \<open>success\<close> field, so none that is
  false.
\<close>

theorem call_tool_result_counterexample:
  "fst (execute_query stub_backend ''sqlite'' fresh_connection ''DROP TABLE users'')
     = [(''error'', JStr select_only_msg)]
   \<and> map_of (fst (execute_query stub_backend ''sqlite'' fresh_connection ''DROP TABLE users''))
       ''success'' = None"
  by (simp add: execute_query_def Let_def startswith_def upper_def strip_def isspace_def
        upper_char_def error_result_def)

subsection \<open>Updates\<close>

text \<open>
  C5. An update whose statement the backend executes with no row matched (the cursor
  reports \<open>rowcount\<close> 0) and commits returns the success result with \<open>rows_affected\<close> 0:
  the Gateway does not turn a zero-row match into an error.
\<close>

theorem update_zero_rows_success:
  assumes "execute B (update_sql t table filters data) (map snd data @ map snd filters) (db c)
             = (Inr cur, d1)"
    and "rowcount cur = 0"
    and "commit B d1 = (None, d2)"
  shows "fst (update_record B t c table filters data)
           = [(''success'', JBool True), (''message'', JStr ''Registro atualizado com sucesso''),
              (''rows_affected'', JInt 0), (''table'', JStr table)]"
  using assms by (simp add: update_record_def cursor_execute_def connection_commit_def)

theorem update_zero_rows_success_witness:
  "fst (update_record stub_backend ''sqlite'' fresh_connection ''users''
          [(''id'', SInt 99)] [(''age'', SInt 31)])
     = [(''success'', JBool True), (''message'', JStr ''Registro atualizado com sucesso''),
        (''rows_affected'', JInt 0), (''table'', JStr ''users'')]"
proof -
  have a: "execute stub_backend (update_sql ''sqlite'' ''users'' [(''id'', SInt 99)] [(''age'', SInt 31)])
             (map snd [(''age'', SInt 31)] @ map snd [(''id'', SInt 99)]) (db fresh_connection)
           = (Inr empty_cursor, 3)"
    by (simp add: stub_backend_def fresh_connection_def)
  have b: "rowcount empty_cursor = 0" by (simp add: empty_cursor_def)
  have c: "commit stub_backend 3 = (None, 3)" by (simp add: stub_backend_def)
  show ?thesis by (rule update_zero_rows_success [OF a b c])
qed






section \<open>Proofs: the ingestion pipeline\<close>

subsection \<open>The loops as list functions\<close>

lemma foldl_append_concat:
  "foldl (\<lambda>acc x. acc @ f x) a xs = a @ concat (map f xs)"
  by (induction xs arbitrary: a) simp_all

lemma create_documents_concat:
  "create_documents_with_metadata emb pdfs = concat (map (documents_of_pdf emb) pdfs)"
  by (simp add: create_documents_with_metadata_def foldl_append_concat)


subsection \<open>What is embedded\<close>

text \<open>
  C4, amended. Every document built for the store is a text, an image or a table
  document. A text document has the page text as content and its embedding is
  \<open>emb\<close> of that content; an image document has the generated description as content and
  its embedding is \<open>emb\<close> of that content; a table document is embedded from the generated
  description alone (never the grid), while its content is the description followed by a
  newline and the table's CSV text.
\<close>

theorem embedding_source:
  "\<forall>d \<in> set (create_documents_with_metadata emb pdfs).
     (content_type d = ''text'' \<and> embedding d = emb (content d)
        \<and> (\<exists>pd \<in> set pdfs. \<exists>doc \<in> set (pp_text_documents pd). content d = page_content doc))
   \<or> (content_type d = ''image'' \<and> embedding d = emb (content d)
        \<and> (\<exists>pd \<in> set pdfs. \<exists>img \<in> set (pp_images pd). content d = img_description img))
   \<or> (content_type d = ''table''
        \<and> (\<exists>pd \<in> set pdfs. \<exists>t \<in> set (pp_tables pd).
              content d = tbl_description t @ [CHR 0x0A] @ tbl_csv t
              \<and> embedding d = emb (tbl_description t)))"
proof
  fix d
  assume "d \<in> set (create_documents_with_metadata emb pdfs)"
  then obtain pd where pd: "pd \<in> set pdfs" and d: "d \<in> set (documents_of_pdf emb pd)"
    by (auto simp: create_documents_concat)
  from d consider
      doc where "doc \<in> set (pp_text_documents pd)" "d = text_entry emb (pp_pdf_name pd) doc"
    | img where "img \<in> set (pp_images pd)" "d = image_document emb (pp_pdf_name pd) img"
    | t where "t \<in> set (pp_tables pd)" "d = table_document emb (pp_pdf_name pd) t"
    by (auto simp: documents_of_pdf_def)
  then show "(content_type d = ''text'' \<and> embedding d = emb (content d)
        \<and> (\<exists>pd \<in> set pdfs. \<exists>doc \<in> set (pp_text_documents pd). content d = page_content doc))
   \<or> (content_type d = ''image'' \<and> embedding d = emb (content d)
        \<and> (\<exists>pd \<in> set pdfs. \<exists>img \<in> set (pp_images pd). content d = img_description img))
   \<or> (content_type d = ''table''
        \<and> (\<exists>pd \<in> set pdfs. \<exists>t \<in> set (pp_tables pd).
              content d = tbl_description t @ [CHR 0x0A] @ tbl_csv t
              \<and> embedding d = emb (tbl_description t)))"
  proof cases
    case 1
    then have "content_type d = ''text'' \<and> embedding d = emb (content d) \<and> content d = page_content doc"
      by (simp add: text_entry_def)
    with 1(1) pd show ?thesis by blast
  next
    case 2
    then have "content_type d = ''image'' \<and> embedding d = emb (content d) \<and> content d = img_description img"
      by (simp add: image_document_def)
    with 2(1) pd show ?thesis by blast
  next
    case 3
    then have "content_type d = ''table'' \<and> content d = tbl_description t @ [CHR 0x0A] @ tbl_csv t
        \<and> embedding d = emb (tbl_description t)"
      by (simp add: table_document_def)
    with 3(1) pd show ?thesis by blast
  qed
qed

theorem embedding_source_witness:
  "content_type (table_document identity_embedding ''a.pdf'' sample_table) = ''table''
   \<and> embedding (table_document identity_embedding ''a.pdf'' sample_table)
       = identity_embedding ''Tabela com 1 linhas e 2 colunas. Colunas: n, v''"
proof -
  have "table_document identity_embedding ''a.pdf'' sample_table
          \<in> set (create_documents_with_metadata identity_embedding [sample_processed])"
    by (simp add: create_documents_with_metadata_def documents_of_pdf_def sample_processed_def)
  with embedding_source [of identity_embedding "[sample_processed]"] show ?thesis
    by (auto simp: sample_processed_def sample_table_def table_document_def)
qed

text \<open>
  The claim as stated, that the embedding is \<open>emb\<close> of the content for every modality,
  fails for a table document under an embedding that tells texts apart.
\<close>

theorem embedding_source_counterexample:
  "content_type (hd (create_documents_with_metadata identity_embedding [sample_processed])) = ''table''
   \<and> embedding (hd (create_documents_with_metadata identity_embedding [sample_processed]))
       \<noteq> identity_embedding (content (hd (create_documents_with_metadata identity_embedding [sample_processed])))"
  by (simp add: create_documents_with_metadata_def documents_of_pdf_def sample_processed_def
        table_document_def sample_table_def identity_embedding_def)

subsection \<open>Failures inside a stage\<close>


lemma image_entry_update [simp]:
  "image_entry X (p\<lparr>fitz_open := x\<rparr>) = image_entry X p"
  by (auto simp: image_entry_def fun_eq_iff Let_def split: sum.splits option.splits)

lemma image_page_update [simp]:
  "image_page X (p\<lparr>fitz_open := x\<rparr>) = image_page X p"
  by (auto simp: image_page_def fun_eq_iff split: sum.splits)

lemma table_entry_update [simp]:
  "table_entry X (p\<lparr>plumber_open := x\<rparr>) = table_entry X p"
  by (auto simp: table_entry_def fun_eq_iff Let_def split: sum.splits option.splits)

lemma table_page_update [simp]:
  "table_page X (p\<lparr>plumber_open := x\<rparr>) = table_page X p"
  by (auto simp: table_page_def fun_eq_iff split: sum.splits)











lemma image_entry_other [simp]:
  "image_entry X (p\<lparr>loader_load := l, plumber_open := y\<rparr>) = image_entry X p"
  by (auto simp: image_entry_def fun_eq_iff Let_def split: sum.splits option.splits)


lemma table_entry_other [simp]:
  "table_entry X (p\<lparr>loader_load := l, fitz_open := x\<rparr>) = table_entry X p"
  by (auto simp: table_entry_def fun_eq_iff Let_def split: sum.splits option.splits)








lemma str_int_small:
  "str_int 0 = ''0''" "str_int 1 = ''1''" "str_int 2 = ''2''" "str_int 6 = ''6''"
  by (simp_all add: str_int_def str_nat.simps digit_char_def) code_simp+




subsection \<open>Search\<close>

text \<open>
  C8, amended. For every query and every non-empty content type X given to \<open>search\<close>, on
  a connected store that has the table and whose nearest-neighbour query returns, the
  result is the nearest-neighbour result filtered to the documents whose content type is
  X, so every document returned has content type X.
\<close>

theorem search_filtered:
  assumes "t \<noteq> []" and "connected st"
    and "map_of (lance_tables st) ''multimodal_rag'' = Some rows"
    and "nearest (emb query) k rows = Inr results"
  shows "search emb nearest st query k (Some t) = Some (filter (\<lambda>d. content_type d = t) results)
     \<and> (\<forall>d \<in> set (filter (\<lambda>d. content_type d = t) results). content_type d = t)"
  using assms by (simp add: search_def)

theorem search_filtered_witness:
  "search identity_embedding first_k sample_store ''hello'' 5 (Some ''image'') = Some []"
proof -
  have a: "''image'' \<noteq> []" by simp
  have b: "connected sample_store" by (simp add: sample_store_def)
  have c: "map_of (lance_tables sample_store) ''multimodal_rag''
             = Some [text_entry identity_embedding ''a.pdf'' \<lparr>page_content = ''hello'', doc_metadata = []\<rparr>]"
    by (simp add: sample_store_def)
  have d: "first_k (identity_embedding ''hello'') 5
             [text_entry identity_embedding ''a.pdf'' \<lparr>page_content = ''hello'', doc_metadata = []\<rparr>]
           = Inr [text_entry identity_embedding ''a.pdf'' \<lparr>page_content = ''hello'', doc_metadata = []\<rparr>]"
    by (simp add: first_k_def)
  show ?thesis
    using a b c d search_filtered [where t = "''image''" and st = sample_store and emb = identity_embedding
        and query = "''hello''" and k = 5 and nearest = first_k
        and rows = "[text_entry identity_embedding ''a.pdf'' \<lparr>page_content = ''hello'', doc_metadata = []\<rparr>]"
        and results = "[text_entry identity_embedding ''a.pdf'' \<lparr>page_content = ''hello'', doc_metadata = []\<rparr>]"]
    by (simp add: text_entry_def)
qed

text \<open>
  The claim as stated, for every content type supplied, fails at the empty string: the
  test \<open>if content_type:\<close> skips the filter, and the documents returned do not have the
  empty content type.
\<close>

theorem search_filtered_counterexample:
  "search identity_embedding first_k sample_store ''hello'' 5 (Some [])
     = Some [text_entry identity_embedding ''a.pdf'' \<lparr>page_content = ''hello'', doc_metadata = []\<rparr>]
   \<and> content_type (text_entry identity_embedding ''a.pdf'' \<lparr>page_content = ''hello'', doc_metadata = []\<rparr>)
       \<noteq> []"
  by (simp add: search_def sample_store_def first_k_def text_entry_def)

subsection \<open>Table descriptions\<close>

lemma join_cells_total:
  "None \<notin> set cs \<Longrightarrow> join_cells i cs = Inr (map the cs)"
  by (induction i cs rule: join_cells.induct) auto

lemma join_cells_result:
  "join_cells i cs = Inr ss \<Longrightarrow> ss = map the cs"
  by (induction i cs arbitrary: ss rule: join_cells.induct) (auto split: sum.splits)

lemma describe_table_frame_spec:
  assumes "grid \<noteq> []" and "None \<notin> set (take 5 (hd grid))"
  shows "describe_table_frame \<lparr>frame_data = tl grid, frame_columns = hd grid\<rparr> (hd grid)
           = Inr (spec_table_description grid)"
proof -
  have "int (length (tl grid)) = int (length grid) - 1"
    using assms(1) by (cases grid) simp_all
  then show ?thesis
    using join_cells_total [OF assms(2), of 0]
    by (simp add: describe_table_frame_def spec_table_description_def)
qed

lemma describe_table_frame_result:
  assumes "grid \<noteq> []"
    and "describe_table_frame \<lparr>frame_data = tl grid, frame_columns = hd grid\<rparr> (hd grid) = Inr s"
  shows "s = spec_table_description grid"
proof -
  have l: "int (length (tl grid)) = int (length grid) - 1"
    using assms(1) by (cases grid) simp_all
  from assms(2) obtain names where n: "join_cells 0 (take 5 (hd grid)) = Inr names"
    by (auto simp: describe_table_frame_def Let_def split: sum.splits)
  from join_cells_result [OF n] n assms(2) l show ?thesis
    by (simp add: describe_table_frame_def spec_table_description_def)
qed

lemma table_entry_description:
  assumes "t \<in> set (fst (table_entry X p n (i, g)))"
  shows "\<exists>grid. g = Some grid \<and> grid \<noteq> [] \<and> tbl_description t = spec_table_description grid
           \<and> tbl_rows t = int (length grid) - 1 \<and> tbl_columns t = int (length (hd grid))"
proof -
  from assms obtain grid where g: "g = Some grid" "grid \<noteq> []"
    by (cases g) (auto simp: table_entry_def split: if_splits)
  have l: "int (length (tl grid)) = int (length grid) - 1"
    using g(2) by (cases grid) simp_all
  from assms g obtain s where
    s: "describe_table_frame \<lparr>frame_data = tl grid, frame_columns = hd grid\<rparr> (hd grid) = Inr s"
    and t: "tbl_description t = s" "tbl_rows t = int (length (tl grid))"
      "tbl_columns t = int (length (hd grid))"
    by (auto simp: table_entry_def Let_def split: option.splits sum.splits)
  from describe_table_frame_result [OF g(2) s] t l g show ?thesis by simp
qed

lemma loop_elems:
  "y \<in> set (fst (loop body xs)) \<Longrightarrow> \<exists>x \<in> set xs. y \<in> set (fst (body x))"
  by (induction xs arbitrary: y) (auto split: prod.splits option.splits)

lemma extracted_table_description:
  assumes "t \<in> set (extract_tables_from_pdf X p)"
  shows "\<exists>pages tables grid. plumber_open p = Inr pages \<and> Inr tables \<in> set pages
           \<and> Some grid \<in> set tables \<and> grid \<noteq> []
           \<and> tbl_description t = spec_table_description grid
           \<and> tbl_rows t = int (length grid) - 1 \<and> tbl_columns t = int (length (hd grid))"
proof -
  from assms obtain pages where pages: "plumber_open p = Inr pages"
    and t: "t \<in> set (fst (loop (table_page X p) (enumerate 1 pages)))"
    by (cases "plumber_open p") (simp_all add: extract_tables_from_pdf_def)
  from loop_elems [OF t] obtain n page where np: "(n, page) \<in> set (enumerate 1 pages)"
    and t2: "t \<in> set (fst (table_page X p (n, page)))" by auto
  from t2 obtain tables where page: "page = Inr tables"
    and t3: "t \<in> set (fst (loop (table_entry X p n) (enumerate 0 tables)))"
    by (cases page) (auto simp: table_page_def)
  from loop_elems [OF t3] obtain i g where ig: "(i, g) \<in> set (enumerate 0 tables)"
    and t4: "t \<in> set (fst (table_entry X p n (i, g)))" by auto
  from table_entry_description [OF t4] obtain grid where
    "g = Some grid" "grid \<noteq> []" "tbl_description t = spec_table_description grid"
    "tbl_rows t = int (length grid) - 1" "tbl_columns t = int (length (hd grid))" by blast
  moreover have "page \<in> set pages" using np by (auto simp: in_set_enumerate_eq)
  moreover have "g \<in> set tables" using ig by (auto simp: in_set_enumerate_eq)
  ultimately show ?thesis using pages page by blast
qed

text \<open>
  C9. The description generated for a table grid states the number of rows without the
  header row and the number of columns, lists at most the first five column names and
  ends with \<open>...\<close> exactly when the grid has more than five columns: for a grid whose
  first five header cells are strings the description function returns that text, and
  every table entry extracted from a PDF carries that text for its grid, together with
  the same row and column counts.
\<close>

theorem table_description_states_counts:
  "(grid \<noteq> [] \<and> None \<notin> set (take 5 (hd grid)) \<longrightarrow>
      describe_table_frame \<lparr>frame_data = tl grid, frame_columns = hd grid\<rparr> (hd grid)
        = Inr (spec_table_description grid))
   \<and> (\<forall>t \<in> set (extract_tables_from_pdf X p).
        \<exists>pages tables g. plumber_open p = Inr pages \<and> Inr tables \<in> set pages
           \<and> Some g \<in> set tables \<and> g \<noteq> []
           \<and> tbl_description t = spec_table_description g
           \<and> tbl_rows t = int (length g) - 1 \<and> tbl_columns t = int (length (hd g)))"
  using describe_table_frame_spec extracted_table_description by blast

theorem table_description_states_counts_witness:
  "describe_table_frame
      \<lparr>frame_data = tl [[Some ''a'', Some ''b'', Some ''c'', Some ''d'', Some ''e'', Some ''f'']],
       frame_columns = hd [[Some ''a'', Some ''b'', Some ''c'', Some ''d'', Some ''e'', Some ''f'']]\<rparr>
      (hd [[Some ''a'', Some ''b'', Some ''c'', Some ''d'', Some ''e'', Some ''f'']])
     = Inr ''Tabela com 0 linhas e 6 colunas. Colunas: a, b, c, d, e...''
   \<and> map tbl_description (extract_tables_from_pdf plain_externals half_broken_pdf)
     = [''Tabela com 1 linhas e 2 colunas. Colunas: n, v'']"
proof -
  have a: "spec_table_description [[Some ''a'', Some ''b'', Some ''c'', Some ''d'', Some ''e'', Some ''f'']]
             = ''Tabela com 0 linhas e 6 colunas. Colunas: a, b, c, d, e...''"
    by (simp add: spec_table_description_def str_int_small)
  have b: "spec_table_description [[Some ''n'', Some ''v''], [Some ''1'', Some ''2'']]
             = ''Tabela com 1 linhas e 2 colunas. Colunas: n, v''"
    by (simp add: spec_table_description_def str_int_small)
  have c: "length (extract_tables_from_pdf plain_externals half_broken_pdf) = 1"
    by (simp add: extract_tables_from_pdf_def half_broken_pdf_def table_page_def table_entry_def
        plain_externals_def describe_table_frame_def Let_def enumerate_eq_zip upt_rec)
  have d: "plumber_open half_broken_pdf
             = Inr [Inr [Some [[Some ''n'', Some ''v''], [Some ''1'', Some ''2'']]]]"
    by (simp add: half_broken_pdf_def)
  from c obtain t where t: "extract_tables_from_pdf plain_externals half_broken_pdf = [t]"
    by (cases "extract_tables_from_pdf plain_externals half_broken_pdf") auto
  have "tbl_description t = ''Tabela com 1 linhas e 2 colunas. Colunas: n, v''"
    using table_description_states_counts [of "[]" plain_externals half_broken_pdf] t d b
    by auto
  moreover have "describe_table_frame
      \<lparr>frame_data = tl [[Some ''a'', Some ''b'', Some ''c'', Some ''d'', Some ''e'', Some ''f'']],
       frame_columns = hd [[Some ''a'', Some ''b'', Some ''c'', Some ''d'', Some ''e'', Some ''f'']]\<rparr>
      (hd [[Some ''a'', Some ''b'', Some ''c'', Some ''d'', Some ''e'', Some ''f'']])
     = Inr ''Tabela com 0 linhas e 6 colunas. Colunas: a, b, c, d, e...''"
    using table_description_states_counts
      [of "[[Some ''a'', Some ''b'', Some ''c'', Some ''d'', Some ''e'', Some ''f'']]" plain_externals half_broken_pdf] a
    by simp
  ultimately show ?thesis using t by simp
qed

end
